theory Spec2Isabelle
  imports Main "HOL-Library.Word"
begin

unbundle bit_operations_syntax

section \<open>Data model\<close>

text \<open>
  The program is one Go file, \<^verbatim>\<open>main.go\<close>: an in-memory catalog
  (\<^verbatim>\<open>MemConnection.List\<close>), the matching service (\<^verbatim>\<open>Services.Webhook\<close>) and
  the handler of \<^verbatim>\<open>POST /webhook\<close>, a closure inside \<^verbatim>\<open>main\<close>.

  A Go \<^verbatim>\<open>[]byte\<close> is a list of 8-bit words. A Go \<^verbatim>\<open>string\<close> that is compared
  or printed (a SKU, a header name) is a \<open>string\<close>; one that is converted with
  \<^verbatim>\<open>[]byte(...)\<close> (the signature header) is kept as its bytes.
\<close>

type_synonym byte = "8 word"
type_synonym bytes = "byte list"

text \<open>
  A Go \<^verbatim>\<open>error\<close>. \<^verbatim>\<open>nil\<close> is \<open>None\<close> of \<open>error option\<close>. The program
  makes one error itself, \<^verbatim>\<open>errors.New("Found wanted sku")\<close>; every other error
  comes out of a library or out of an implementation of \<^verbatim>\<open>Connection\<close> and is
  kept by its message.
\<close>

datatype error = errors_New string | foreign_error string

text \<open>
  The interface \<^verbatim>\<open>Connection\<close> has the single method
  \<^verbatim>\<open>List() ([]string, error)\<close>. An implementation is that method, acting on the
  implementation's own state \<open>'c\<close>: it returns both results and the state after
  the call.
\<close>

type_synonym 'c Connection = "'c \<Rightarrow> (string list \<times> error option) \<times> 'c"

text \<open>\<^verbatim>\<open>type MemConnection struct{}\<close>: a struct without fields.\<close>

datatype MemConnection = MemConnection

text \<open>
  What the program can change: the state behind the connection, and standard output,
  kept as the list of the writes made so far (one entry per \<^verbatim>\<open>fmt.Println\<close>).
\<close>

type_synonym 'c world = "'c \<times> string list"

text \<open>
  The request as the handler reads it: \<^verbatim>\<open>c.GetReqHeaders()\<close>, a Go map from
  header names to values, and \<^verbatim>\<open>c.Request().Body()\<close>.
\<close>

record Request =
  ReqHeaders :: "string \<Rightarrow> bytes option"
  Body :: bytes

text \<open>
  The anonymous struct the body is parsed into:
  \<^verbatim>\<open>struct { LineItems []struct { Sku string } }\<close>.
\<close>

datatype LineItem = LineItem (Sku: string)

text \<open>
  How the handler ends: with \<^verbatim>\<open>return c.SendStatus(code)\<close>, or with
  \<^verbatim>\<open>return err\<close> for a non-nil \<open>err\<close>, which hands the error to the
  framework.
\<close>

datatype outcome = SendStatus nat | ReturnErr error

definition StatusOK :: nat where
  "StatusOK = 200"

definition StatusUnauthorized :: nat where
  "StatusUnauthorized = 401"

section \<open>The catalog\<close>

text \<open>
  \<^verbatim>\<open>func (c *MemConnection) List() ([]string, error)\<close>: the three SKUs and
  \<^verbatim>\<open>nil\<close>. The receiver has no field to change.
\<close>

definition MemConnection_List :: "MemConnection Connection" where
  "MemConnection_List c = (([''SKU2006-001'', ''SKU2006-002'', ''SKU2006-003''], None), c)"

section \<open>Services.Webhook\<close>

text \<open>
  \<^verbatim>\<open>fmt.Println("Found wanted sku:", sku)\<close> writes its operands separated by a
  space and ends the line.
\<close>

definition Println :: "string \<Rightarrow> string \<Rightarrow> string" where
  "Println a b = a @ '' '' @ b @ [CHR 0x0A]"

text \<open>
  The loop \<^verbatim>\<open>for _, s := range skus\<close> of \<^verbatim>\<open>Webhook\<close>: at the first element
  equal to \<open>sku\<close> it prints and returns the error; at the end of the slice it
  returns \<^verbatim>\<open>nil\<close>.
\<close>

fun Webhook_range :: "string list \<Rightarrow> string \<Rightarrow> string list \<Rightarrow> error option \<times> string list" where
  "Webhook_range [] sku out = (None, out)"
| "Webhook_range (s # skus) sku out =
     (if s = sku
      then (Some (errors_New ''Found wanted sku''), out @ [Println ''Found wanted sku:'' sku])
      else Webhook_range skus sku out)"

text \<open>
  \<^verbatim>\<open>func (s *Services) Webhook(sku string) error\<close>. The first statement is
  \<^verbatim>\<open>skus, _ := s.database.List()\<close>: the error of \<open>List\<close> is dropped.
\<close>

definition Webhook :: "'c Connection \<Rightarrow> string \<Rightarrow> 'c world \<Rightarrow> error option \<times> 'c world" where
  "Webhook database sku w =
     (case w of (c, out) \<Rightarrow>
        (case database c of ((skus, _), c') \<Rightarrow>
           (case Webhook_range skus sku out of (r, out') \<Rightarrow> (r, (c', out')))))"

section \<open>The signature check\<close>

text \<open>\<^verbatim>\<open>const Signature = ""\<close>: the shared secret, as the bytes \<^verbatim>\<open>[]byte(Signature)\<close>.\<close>

definition Signature :: bytes where
  "Signature = []"

text \<open>
  \<^verbatim>\<open>hmac.Equal\<close> belongs to Go's standard library, not to the repository. It is
  \<^verbatim>\<open>subtle.ConstantTimeCompare(mac1, mac2) == 1\<close>, and that function is written
  out here as the library has it: 0 at once for slices of different lengths, else the
  OR of the XORs of all the pairs of bytes, compared with zero by
  \<^verbatim>\<open>ConstantTimeByteEq(v, 0)\<close>, which is
  \<^verbatim>\<open>int((uint32(x^y) - 1) >> 31)\<close>.
\<close>

definition ConstantTimeByteEq :: "byte \<Rightarrow> byte \<Rightarrow> int" where
  "ConstantTimeByteEq x y = uint (drop_bit 31 ((ucast (x XOR y) :: 32 word) - 1))"

text \<open>
  The loop \<^verbatim>\<open>for i := 0; i < len(x); i++ { v |= x[i] ^ y[i] }\<close>; it runs only
  on slices of one length.
\<close>

fun ConstantTimeCompare_range :: "byte \<Rightarrow> bytes \<Rightarrow> bytes \<Rightarrow> byte" where
  "ConstantTimeCompare_range v (a # x) (b # y) = ConstantTimeCompare_range (v OR (a XOR b)) x y"
| "ConstantTimeCompare_range v _ _ = v"

definition ConstantTimeCompare :: "bytes \<Rightarrow> bytes \<Rightarrow> int" where
  "ConstantTimeCompare x y =
     (if length x \<noteq> length y then 0
      else ConstantTimeByteEq (ConstantTimeCompare_range 0 x y) 0)"

definition hmac_Equal :: "bytes \<Rightarrow> bytes \<Rightarrow> bool" where
  "hmac_Equal mac1 mac2 = (ConstantTimeCompare mac1 mac2 = 1)"

text \<open>
  The block of the handler that checks the signature:
  \<^verbatim>\<open>
  h := hmac.New(sha256.New, []byte(Signature))
  h.Write(c.Request().Body())
  d := h.Sum(nil)
  m := base64.StdEncoding.EncodeToString(d)
  if !hmac.Equal([]byte(m), []byte(signature)) { return c.SendStatus(http.StatusUnauthorized) }
  \<close>
  with the secret as an argument. The two library functions it computes with are
  arguments as well: \<open>hmac_sha256_sum key message\<close> stands for the digest \<open>d\<close> and
  \<open>base64_std\<close> for \<^verbatim>\<open>base64.StdEncoding.EncodeToString\<close>. \<open>Verify\<close> is True
  where the block falls through, False where it returns 401.
\<close>

definition Verify :: "(bytes \<Rightarrow> bytes \<Rightarrow> bytes) \<Rightarrow> (bytes \<Rightarrow> bytes) \<Rightarrow> bytes \<Rightarrow> bytes \<Rightarrow> bytes \<Rightarrow> bool" where
  "Verify hmac_sha256_sum base64_std secret rawBody signature =
     (let d = hmac_sha256_sum secret rawBody;
          m = base64_std d
      in hmac_Equal m signature)"

section \<open>The handler of POST /webhook\<close>

text \<open>
  The loop over the line items, and the statement after it:
  \<^verbatim>\<open>
  for _, lineItem := range body.LineItems {
      if err := services.Webhook(lineItem.Sku); err != nil { return err }
  }
  return c.SendStatus(http.StatusOK)
  \<close>
\<close>

fun handler_range :: "'c Connection \<Rightarrow> LineItem list \<Rightarrow> 'c world \<Rightarrow> outcome \<times> 'c world" where
  "handler_range database [] w = (SendStatus StatusOK, w)"
| "handler_range database (lineItem # rest) w =
     (case Webhook database (Sku lineItem) w of
        (Some err, w') \<Rightarrow> (ReturnErr err, w')
      | (None, w') \<Rightarrow> handler_range database rest w')"

text \<open>
  \<^verbatim>\<open>headers[key]\<close> on a Go map of strings: the value stored under the key, the
  empty string where the key is absent.
\<close>

definition index_map :: "(string \<Rightarrow> bytes option) \<Rightarrow> string \<Rightarrow> bytes" where
  "index_map headers key = (case headers key of None \<Rightarrow> [] | Some v \<Rightarrow> v)"

text \<open>
  The handler. \<^verbatim>\<open>c.BodyParser(&body)\<close> is the framework's: it is the argument
  \<open>BodyParser\<close>, which gives the error or the parsed \<^verbatim>\<open>body.LineItems\<close>.
  \<open>database\<close> is the connection \<open>services\<close> was built with.
\<close>

definition handler ::
  "(bytes \<Rightarrow> bytes \<Rightarrow> bytes) \<Rightarrow> (bytes \<Rightarrow> bytes) \<Rightarrow> (Request \<Rightarrow> error + LineItem list) \<Rightarrow>
   'c Connection \<Rightarrow> Request \<Rightarrow> 'c world \<Rightarrow> outcome \<times> 'c world" where
  "handler hmac_sha256_sum base64_std BodyParser database req w =
     (let headers = ReqHeaders req;
          signature = index_map headers ''X-Shopify-Hmac-Sha256''
      in if \<not> Verify hmac_sha256_sum base64_std Signature (Body req) signature
         then (SendStatus StatusUnauthorized, w)
         else (case BodyParser req of
                 Inl err \<Rightarrow> (ReturnErr err, w)
               | Inr LineItems \<Rightarrow> handler_range database LineItems w))"

section \<open>Properties of Services.Webhook\<close>

lemma Webhook_range_eq:
  "Webhook_range skus sku out =
     (if sku \<in> set skus
      then (Some (errors_New ''Found wanted sku''), out @ [Println ''Found wanted sku:'' sku])
      else (None, out))"
  by (induction skus) auto

lemma Webhook_eq:
  "Webhook database sku (c, out) =
     (if sku \<in> set (fst (fst (database c)))
      then (Some (errors_New ''Found wanted sku''),
            (snd (database c), out @ [Println ''Found wanted sku:'' sku]))
      else (None, (snd (database c), out)))"
  by (simp add: Webhook_def Webhook_range_eq split: prod.splits)

text \<open>
  Claim C8. For every SKU \<open>s\<close> and every state of the catalog, \<open>Webhook s\<close> returns a
  non-nil error if and only if \<open>s\<close> equals some element of the list that
  \<open>Connection.List\<close> returned, and \<^verbatim>\<open>nil\<close> exactly when \<open>s\<close> equals none. In the
  error case exactly one line is written, the notification for \<open>s\<close>; in the
  \<^verbatim>\<open>nil\<close> case nothing is written.
\<close>

theorem Webhook_error_iff_listed:
  "(fst (Webhook database s (c, out)) \<noteq> None) = (s \<in> set (fst (fst (database c))))
   \<and> (fst (Webhook database s (c, out)) = None) = (s \<notin> set (fst (fst (database c))))
   \<and> snd (snd (Webhook database s (c, out))) =
       (if fst (Webhook database s (c, out)) \<noteq> None
        then out @ [Println ''Found wanted sku:'' s]
        else out)"
  by (simp add: Webhook_eq)

section \<open>Properties of the signature check\<close>

lemma unat_byte_less: "unat (v :: byte) < 256"
  using unsigned_less [of v, where 'a = nat] by simp

lemma unat_ucast_byte: "unat (ucast (v :: byte) :: 32 word) = unat v"
  using unat_byte_less [of v] by (simp add: unsigned_ucast_eq take_bit_nat_eq_self)

lemma ucast_byte_eq_0: "((ucast (v :: byte) :: 32 word) = 0) = (v = 0)"
  by (metis unat_ucast_byte unat_eq_zero)

lemma drop_bit_31_small: "unat (w :: 32 word) < 2 ^ 31 \<Longrightarrow> drop_bit 31 w = 0"
proof -
  assume small: "unat w < 2 ^ 31"
  have "unat (drop_bit 31 w) = drop_bit 31 (unat w)"
    by (rule unat_drop_bit_eq)
  also have "\<dots> = 0"
    using small by (simp add: drop_bit_eq_div)
  finally show ?thesis
    by (simp add: unat_eq_zero)
qed

lemma borrow_nonzero: "(v :: byte) \<noteq> 0 \<Longrightarrow> drop_bit 31 ((ucast v :: 32 word) - 1) = 0"
proof (rule drop_bit_31_small)
  assume "v \<noteq> 0"
  then have "unat ((ucast v :: 32 word) - 1) = unat v - 1"
    by (simp add: unat_minus_one ucast_byte_eq_0 unat_ucast_byte)
  then show "unat ((ucast v :: 32 word) - 1) < 2 ^ 31"
    using unat_byte_less [of v] by simp
qed

lemma ConstantTimeByteEq_zero: "(ConstantTimeByteEq v 0 = 1) = (v = 0)"
proof (cases "v = 0")
  case True
  then show ?thesis by (simp add: ConstantTimeByteEq_def)
next
  case False
  then show ?thesis by (simp add: ConstantTimeByteEq_def borrow_nonzero)
qed

lemma byte_xor_eq_0: "((a :: byte) XOR b = 0) = (a = b)"
  by (metis bit.xor_left_self xor.right_neutral)

lemma ConstantTimeCompare_range_zero:
  "length x = length y \<Longrightarrow> (ConstantTimeCompare_range v x y = 0) = (v = 0 \<and> x = y)"
proof (induction x y arbitrary: v rule: list_induct2)
  case Nil
  then show ?case by simp
next
  case (Cons a x b y)
  then show ?case by (auto simp: or_eq_0_iff byte_xor_eq_0)
qed

lemma ConstantTimeCompare_eq: "(ConstantTimeCompare x y = 1) = (x = y)"
  by (auto simp: ConstantTimeCompare_def ConstantTimeByteEq_zero ConstantTimeCompare_range_zero)

lemma hmac_Equal_eq: "hmac_Equal mac1 mac2 = (mac1 = mac2)"
  by (simp add: hmac_Equal_def ConstantTimeCompare_eq)

text \<open>
  Claim C2. For every body \<open>B\<close> and secret \<open>K\<close>, the check accepts the presented
  signature \<open>S\<close> if and only if \<open>S\<close> is the base64 encoding of the HMAC-SHA256 of
  \<open>B\<close> under \<open>K\<close>: it accepts that value, and rejects every other \<open>S\<close>.
\<close>

theorem Verify_iff_signature:
  "Verify hmac_sha256_sum base64_std K B S = (S = base64_std (hmac_sha256_sum K B))
   \<and> Verify hmac_sha256_sum base64_std K B (base64_std (hmac_sha256_sum K B))"
  by (auto simp: Verify_def hmac_Equal_eq)

section \<open>Properties of the handler\<close>

lemma handler_rejected:
  "\<not> Verify hmac_sha256_sum base64_std Signature (Body req)
        (index_map (ReqHeaders req) ''X-Shopify-Hmac-Sha256'')
   \<Longrightarrow> handler hmac_sha256_sum base64_std BodyParser database req w
       = (SendStatus StatusUnauthorized, w)"
  by (simp add: handler_def)

lemma handler_verified:
  "Verify hmac_sha256_sum base64_std Signature (Body req)
      (index_map (ReqHeaders req) ''X-Shopify-Hmac-Sha256'')
   \<Longrightarrow> BodyParser req = Inr items
   \<Longrightarrow> handler hmac_sha256_sum base64_std BodyParser database req w
       = handler_range database items w"
  by (simp add: handler_def)

text \<open>
  The loop over the line items against a connection whose \<open>List\<close> returns the same
  list \<open>skus\<close> at every call (whatever else the call does to the connection): it ends
  with status 200 when no line item is in \<open>skus\<close>, and otherwise with the error of
  \<open>Webhook\<close>; it writes one line at most, for the first line item that is in
  \<open>skus\<close>.
\<close>

lemma handler_range_static:
  assumes "\<forall>c. fst (fst (database c)) = skus"
  shows "fst (handler_range database items (c, out)) =
           (if filter (\<lambda>li. Sku li \<in> set skus) items = [] then SendStatus StatusOK
            else ReturnErr (errors_New ''Found wanted sku''))
         \<and> snd (snd (handler_range database items (c, out))) =
           out @ map (\<lambda>li. Println ''Found wanted sku:'' (Sku li))
                   (take 1 (filter (\<lambda>li. Sku li \<in> set skus) items))"
  using assms
proof (induction items arbitrary: c out)
  case Nil
  then show ?case by simp
next
  case (Cons li items)
  show ?case
  proof (cases "Sku li \<in> set skus")
    case True
    then show ?thesis using Cons.prems by (simp add: Webhook_eq)
  next
    case False
    then show ?thesis using Cons.prems Cons.IH [of "snd (database c)" out]
      by (simp add: Webhook_eq)
  qed
qed

text \<open>
  Claim C1. For every request whose presented signature (the header
  \<^verbatim>\<open>X-Shopify-Hmac-Sha256\<close>) is not the base64 encoding of the HMAC-SHA256 of the
  raw body under the configured secret, the handler answers 401 and nothing else
  happens: standard output and the state behind the connection are as before, for every
  connection, so no line item was dispatched and \<open>Webhook\<close>, which calls \<open>List\<close>,
  was not invoked.
\<close>

theorem handler_bad_signature_401:
  assumes "index_map (ReqHeaders req) ''X-Shopify-Hmac-Sha256''
             \<noteq> base64_std (hmac_sha256_sum Signature (Body req))"
  shows "handler hmac_sha256_sum base64_std BodyParser database req w = (SendStatus 401, w)"
proof -
  have "\<not> Verify hmac_sha256_sum base64_std Signature (Body req)
            (index_map (ReqHeaders req) ''X-Shopify-Hmac-Sha256'')"
    using assms by (simp add: Verify_def hmac_Equal_eq)
  then show ?thesis
    by (simp add: handler_rejected StatusUnauthorized_def)
qed

text \<open>
  An instance. The two library functions are arguments of the model, so any functions
  can stand for them: here the digest is the key followed by the message and the
  encoding is the identity. The connection counts the calls of \<open>List\<close> in its state;
  the count stays 0.
\<close>

theorem handler_bad_signature_401_witness:
  "index_map (ReqHeaders \<lparr>ReqHeaders = [''X-Shopify-Hmac-Sha256'' \<mapsto> [1]], Body = [2, 3]\<rparr>)
       ''X-Shopify-Hmac-Sha256''
     \<noteq> (\<lambda>d. d) ((\<lambda>key message. key @ message) Signature
                  (Body \<lparr>ReqHeaders = [''X-Shopify-Hmac-Sha256'' \<mapsto> [1]], Body = [2, 3]\<rparr>))
   \<and> handler (\<lambda>key message. key @ message) (\<lambda>d. d)
        (\<lambda>r. Inr [LineItem ''SKU2006-002''])
        (\<lambda>n. (([''SKU2006-002''], None), Suc n))
        \<lparr>ReqHeaders = [''X-Shopify-Hmac-Sha256'' \<mapsto> [1]], Body = [2, 3]\<rparr>
        (0 :: nat, [])
     = (SendStatus 401, (0, []))"
  using handler_bad_signature_401
    [where hmac_sha256_sum = "\<lambda>key message. key @ message" and base64_std = "\<lambda>d. d"
       and req = "\<lparr>ReqHeaders = [''X-Shopify-Hmac-Sha256'' \<mapsto> [1]], Body = [2, 3]\<rparr>"
       and BodyParser = "\<lambda>r. Inr [LineItem ''SKU2006-002'']"
       and database = "\<lambda>n. (([''SKU2006-002''], None), Suc n)"
       and w = "(0 :: nat, [])"]
  by (simp add: index_map_def Signature_def)

text \<open>
  Claim C7. For a request that passes the signature check and whose body parses to an
  empty sequence of line items, nothing is written (and \<open>List\<close> is not called) and the
  handler answers 200.
\<close>

theorem handler_no_line_items_200:
  assumes "Verify hmac_sha256_sum base64_std Signature (Body req)
             (index_map (ReqHeaders req) ''X-Shopify-Hmac-Sha256'')"
    and "BodyParser req = Inr []"
  shows "handler hmac_sha256_sum base64_std BodyParser database req w = (SendStatus 200, w)"
  using assms by (simp add: handler_verified StatusOK_def)

theorem handler_no_line_items_200_witness:
  "Verify (\<lambda>key message. key @ message) (\<lambda>d. d) Signature
      (Body \<lparr>ReqHeaders = [''X-Shopify-Hmac-Sha256'' \<mapsto> [2, 3]], Body = [2, 3]\<rparr>)
      (index_map (ReqHeaders \<lparr>ReqHeaders = [''X-Shopify-Hmac-Sha256'' \<mapsto> [2, 3]], Body = [2, 3]\<rparr>)
         ''X-Shopify-Hmac-Sha256'')
   \<and> (\<lambda>r. Inr []) \<lparr>ReqHeaders = [''X-Shopify-Hmac-Sha256'' \<mapsto> [2, 3]], Body = [2, 3]\<rparr>
       = (Inr [] :: error + LineItem list)
   \<and> handler (\<lambda>key message. key @ message) (\<lambda>d. d) (\<lambda>r. Inr [])
        (\<lambda>n. (([''SKU2006-002''], None), Suc n))
        \<lparr>ReqHeaders = [''X-Shopify-Hmac-Sha256'' \<mapsto> [2, 3]], Body = [2, 3]\<rparr>
        (0 :: nat, [])
     = (SendStatus 200, (0, []))"
  using handler_no_line_items_200
    [where hmac_sha256_sum = "\<lambda>key message. key @ message" and base64_std = "\<lambda>d. d"
       and req = "\<lparr>ReqHeaders = [''X-Shopify-Hmac-Sha256'' \<mapsto> [2, 3]], Body = [2, 3]\<rparr>"
       and BodyParser = "\<lambda>r. Inr []"
       and database = "\<lambda>n. (([''SKU2006-002''], None), Suc n)"
       and w = "(0 :: nat, [])"]
  by (simp add: Verify_def hmac_Equal_def ConstantTimeCompare_def ConstantTimeByteEq_def
      index_map_def Signature_def)

text \<open>
  Claim C3, as the code has it. For every request that passes the signature check and
  whose body parses, against a connection that lists the same SKUs at every call: the
  handler answers 200 exactly when no line item's SKU is listed. When some line item's
  SKU is listed, it writes one notification, for the first such line item, and returns
  the error \<^verbatim>\<open>Found wanted sku\<close> in place of a status.
\<close>

theorem handler_verified_outcome:
  assumes "Verify hmac_sha256_sum base64_std Signature (Body req)
             (index_map (ReqHeaders req) ''X-Shopify-Hmac-Sha256'')"
    and "BodyParser req = Inr items"
    and "\<forall>c. fst (fst (database c)) = skus"
  shows "fst (handler hmac_sha256_sum base64_std BodyParser database req (c, out)) =
           (if filter (\<lambda>li. Sku li \<in> set skus) items = [] then SendStatus 200
            else ReturnErr (errors_New ''Found wanted sku''))
         \<and> snd (snd (handler hmac_sha256_sum base64_std BodyParser database req (c, out))) =
           out @ map (\<lambda>li. Println ''Found wanted sku:'' (Sku li))
                   (take 1 (filter (\<lambda>li. Sku li \<in> set skus) items))"
  using handler_range_static [OF assms(3), of items c out] assms(1,2)
  by (simp add: handler_verified StatusOK_def)

theorem handler_verified_outcome_witness:
  "Verify (\<lambda>key message. key @ message) (\<lambda>d. d) Signature
      (Body \<lparr>ReqHeaders = [''X-Shopify-Hmac-Sha256'' \<mapsto> [2, 3]], Body = [2, 3]\<rparr>)
      (index_map (ReqHeaders \<lparr>ReqHeaders = [''X-Shopify-Hmac-Sha256'' \<mapsto> [2, 3]], Body = [2, 3]\<rparr>)
         ''X-Shopify-Hmac-Sha256'')
   \<and> (\<lambda>r. Inr [LineItem ''SKU-UNKNOWN'', LineItem ''SKU2006-002'', LineItem ''SKU2006-003''])
        \<lparr>ReqHeaders = [''X-Shopify-Hmac-Sha256'' \<mapsto> [2, 3]], Body = [2, 3]\<rparr>
       = (Inr [LineItem ''SKU-UNKNOWN'', LineItem ''SKU2006-002'', LineItem ''SKU2006-003'']
            :: error + LineItem list)
   \<and> (\<forall>c. fst (fst (MemConnection_List c)) = [''SKU2006-001'', ''SKU2006-002'', ''SKU2006-003''])
   \<and> fst (handler (\<lambda>key message. key @ message) (\<lambda>d. d)
        (\<lambda>r. Inr [LineItem ''SKU-UNKNOWN'', LineItem ''SKU2006-002'', LineItem ''SKU2006-003''])
        MemConnection_List
        \<lparr>ReqHeaders = [''X-Shopify-Hmac-Sha256'' \<mapsto> [2, 3]], Body = [2, 3]\<rparr>
        (MemConnection, []))
     = ReturnErr (errors_New ''Found wanted sku'')
   \<and> snd (snd (handler (\<lambda>key message. key @ message) (\<lambda>d. d)
        (\<lambda>r. Inr [LineItem ''SKU-UNKNOWN'', LineItem ''SKU2006-002'', LineItem ''SKU2006-003''])
        MemConnection_List
        \<lparr>ReqHeaders = [''X-Shopify-Hmac-Sha256'' \<mapsto> [2, 3]], Body = [2, 3]\<rparr>
        (MemConnection, [])))
     = [Println ''Found wanted sku:'' ''SKU2006-002'']"
  using handler_verified_outcome
    [where hmac_sha256_sum = "\<lambda>key message. key @ message" and base64_std = "\<lambda>d. d"
       and req = "\<lparr>ReqHeaders = [''X-Shopify-Hmac-Sha256'' \<mapsto> [2, 3]], Body = [2, 3]\<rparr>"
       and BodyParser = "\<lambda>r. Inr [LineItem ''SKU-UNKNOWN'', LineItem ''SKU2006-002'', LineItem ''SKU2006-003'']"
       and items = "[LineItem ''SKU-UNKNOWN'', LineItem ''SKU2006-002'', LineItem ''SKU2006-003'']"
       and database = MemConnection_List
       and skus = "[''SKU2006-001'', ''SKU2006-002'', ''SKU2006-003'']"
       and c = MemConnection and out = "[]"]
  by (simp add: Verify_def hmac_Equal_def ConstantTimeCompare_def ConstantTimeByteEq_def
      index_map_def Signature_def MemConnection_List_def)

text \<open>
  Claim C3 as the specification states it (every request that passes the check and
  parses is answered 200, a request for \<^verbatim>\<open>SKU2006-002\<close> with one notification)
  fails on the request for \<^verbatim>\<open>SKU2006-002\<close> itself, against the catalog of
  \<open>MemConnection\<close>: the check passes, the body parses, the notification is written,
  and the handler returns the error, not \<^verbatim>\<open>c.SendStatus(http.StatusOK)\<close>. The
  library functions are instantiated as above; the body is the text
  \<^verbatim>\<open>{"line_items":[{"sku":"SKU2006-002"}]}\<close>.
\<close>

theorem handler_match_not_200_counterexample:
  "Verify (\<lambda>key message. key @ message) (\<lambda>d. d) Signature
      (map of_char ''{\"line_items\":[{\"sku\":\"SKU2006-002\"}]}'')
      (index_map [''X-Shopify-Hmac-Sha256'' \<mapsto> map of_char ''{\"line_items\":[{\"sku\":\"SKU2006-002\"}]}'']
         ''X-Shopify-Hmac-Sha256'')
   \<and> handler (\<lambda>key message. key @ message) (\<lambda>d. d)
        (\<lambda>r. Inr [LineItem ''SKU2006-002''])
        MemConnection_List
        \<lparr>ReqHeaders = [''X-Shopify-Hmac-Sha256'' \<mapsto> map of_char ''{\"line_items\":[{\"sku\":\"SKU2006-002\"}]}''],
         Body = map of_char ''{\"line_items\":[{\"sku\":\"SKU2006-002\"}]}''\<rparr>
        (MemConnection, [])
     = (ReturnErr (errors_New ''Found wanted sku''),
        (MemConnection, [Println ''Found wanted sku:'' ''SKU2006-002'']))
   \<and> ReturnErr (errors_New ''Found wanted sku'') \<noteq> SendStatus 200"
  by (simp add: handler_def hmac_Equal_eq Verify_def index_map_def Signature_def
      MemConnection_List_def Webhook_eq)

section \<open>Properties of the dispatch of a purchase event\<close>

text \<open>
  Claim C6. For the line items \<^verbatim>\<open>["SKU2006-001", "SKU-UNKNOWN"]\<close> and a catalog
  that contains \<^verbatim>\<open>SKU2006-001\<close>, the dispatch writes exactly one notification,
  the one for \<^verbatim>\<open>SKU2006-001\<close>, and none for the other SKU.
\<close>

theorem dispatch_one_known_one_unknown:
  assumes "''SKU2006-001'' \<in> set (fst (fst (database c)))"
  shows "snd (snd (handler_range database
                     [LineItem ''SKU2006-001'', LineItem ''SKU-UNKNOWN''] (c, out)))
         = out @ [Println ''Found wanted sku:'' ''SKU2006-001'']"
  using assms by (simp add: Webhook_eq)

theorem dispatch_one_known_one_unknown_witness:
  "''SKU2006-001'' \<in> set (fst (fst (MemConnection_List MemConnection)))
   \<and> snd (snd (handler_range MemConnection_List
                  [LineItem ''SKU2006-001'', LineItem ''SKU-UNKNOWN''] (MemConnection, [])))
     = [''Found wanted sku: SKU2006-001'' @ [CHR 0x0A]]"
  using dispatch_one_known_one_unknown [where database = MemConnection_List
      and c = MemConnection and out = "[]"]
  by (simp add: MemConnection_List_def Println_def)

text \<open>
  Claim C4, as the code has it. For every purchase event that contains two distinct
  SKUs that are both in the catalog (a connection that lists the same SKUs at every
  call), the dispatch writes exactly one notification, for the first line item whose
  SKU is in the catalog, and ends there with the error \<^verbatim>\<open>Found wanted sku\<close>: the
  line items after it are not looked at.
\<close>

theorem dispatch_stops_at_first_match:
  assumes "\<forall>c. fst (fst (database c)) = skus"
    and "LineItem a \<in> set items" and "LineItem b \<in> set items" and "a \<noteq> b"
    and "a \<in> set skus" and "b \<in> set skus"
  shows "fst (handler_range database items (c, out)) = ReturnErr (errors_New ''Found wanted sku'')
         \<and> (\<exists>li rest. filter (\<lambda>li. Sku li \<in> set skus) items = li # rest
               \<and> snd (snd (handler_range database items (c, out)))
                   = out @ [Println ''Found wanted sku:'' (Sku li)])"
proof -
  have "LineItem a \<in> set (filter (\<lambda>li. Sku li \<in> set skus) items)"
    using assms(2,5) by simp
  then obtain li rest where split: "filter (\<lambda>li. Sku li \<in> set skus) items = li # rest"
    by (cases "filter (\<lambda>li. Sku li \<in> set skus) items") auto
  then show ?thesis
    using handler_range_static [OF assms(1), of items c out] by (simp add: StatusOK_def)
qed

theorem dispatch_stops_at_first_match_witness:
  "(\<forall>c. fst (fst (MemConnection_List c)) = [''SKU2006-001'', ''SKU2006-002'', ''SKU2006-003''])
   \<and> LineItem ''SKU2006-003'' \<in> set [LineItem ''SKU2006-003'', LineItem ''SKU2006-001'']
   \<and> LineItem ''SKU2006-001'' \<in> set [LineItem ''SKU2006-003'', LineItem ''SKU2006-001'']
   \<and> ''SKU2006-003'' \<noteq> ''SKU2006-001''
   \<and> ''SKU2006-003'' \<in> set [''SKU2006-001'', ''SKU2006-002'', ''SKU2006-003'']
   \<and> ''SKU2006-001'' \<in> set [''SKU2006-001'', ''SKU2006-002'', ''SKU2006-003'']
   \<and> fst (handler_range MemConnection_List
             [LineItem ''SKU2006-003'', LineItem ''SKU2006-001''] (MemConnection, []))
       = ReturnErr (errors_New ''Found wanted sku'')
   \<and> snd (snd (handler_range MemConnection_List
             [LineItem ''SKU2006-003'', LineItem ''SKU2006-001''] (MemConnection, [])))
       = [Println ''Found wanted sku:'' ''SKU2006-003'']"
  using dispatch_stops_at_first_match [where database = MemConnection_List
      and skus = "[''SKU2006-001'', ''SKU2006-002'', ''SKU2006-003'']"
      and items = "[LineItem ''SKU2006-003'', LineItem ''SKU2006-001'']"
      and a = "''SKU2006-003''" and b = "''SKU2006-001''"
      and c = MemConnection and out = "[]"]
  by (simp add: MemConnection_List_def)

text \<open>
  Claim C4 as the specification states it (two notifications for two catalog SKUs) fails
  on the event \<^verbatim>\<open>["SKU2006-001", "SKU2006-002"]\<close> against the catalog of
  \<open>MemConnection\<close>: one line is written, not two.
\<close>

theorem dispatch_two_matches_counterexample:
  "handler_range MemConnection_List
     [LineItem ''SKU2006-001'', LineItem ''SKU2006-002''] (MemConnection, [])
   = (ReturnErr (errors_New ''Found wanted sku''),
      (MemConnection, [''Found wanted sku: SKU2006-001'' @ [CHR 0x0A]]))
   \<and> length (snd (snd (handler_range MemConnection_List
        [LineItem ''SKU2006-001'', LineItem ''SKU2006-002''] (MemConnection, [])))) \<noteq> 2"
  by (simp add: MemConnection_List_def Webhook_eq Println_def)

lemma Webhook_drops_List_error:
  "Webhook database sku w
   = Webhook (\<lambda>c. ((fst (fst (database c)), None), snd (database c))) sku w"
  by (cases w) (simp add: Webhook_eq)

lemma handler_range_drops_List_error:
  "handler_range database items w
   = handler_range (\<lambda>c. ((fst (fst (database c)), None), snd (database c))) items w"
proof (induction items arbitrary: w)
  case Nil
  then show ?case by simp
next
  case (Cons li items)
  have "Webhook database (Sku li) w
        = Webhook (\<lambda>c. ((fst (fst (database c)), None), snd (database c))) (Sku li) w"
    by (rule Webhook_drops_List_error)
  then show ?case
    using Cons.IH by (simp split: prod.splits option.splits)
qed

text \<open>
  Claim C5, as the code has it. For every sequence of line items, the error that
  \<open>List\<close> returns is discarded: the dispatch does exactly what it does against the
  connection that returns the same lists and no error. So when \<open>List\<close> fails and
  returns an empty list with its error, the dispatch goes on as for an empty catalog:
  it writes nothing and ends with status 200.
\<close>

theorem dispatch_ignores_List_error:
  "handler_range database items (c, out)
     = handler_range (\<lambda>c. ((fst (fst (database c)), None), snd (database c))) items (c, out)
   \<and> ((\<forall>c. fst (database c) = ([], Some e)) \<longrightarrow>
        fst (handler_range database items (c, out)) = SendStatus 200
        \<and> snd (snd (handler_range database items (c, out))) = out)"
proof -
  have "fst (handler_range database items (c, out)) = SendStatus 200
        \<and> snd (snd (handler_range database items (c, out))) = out"
    if fails: "\<forall>c. fst (database c) = ([], Some e)"
  proof -
    from fails have "\<forall>c. fst (fst (database c)) = []"
      by simp
    then show ?thesis
      using handler_range_static [of database "[]" items c out] by (simp add: StatusOK_def)
  qed
  then show ?thesis
    using handler_range_drops_List_error [of database items "(c, out)"] by blast
qed

theorem dispatch_ignores_List_error_witness:
  "(\<forall>c :: unit. fst ((\<lambda>c. (([], Some (foreign_error ''catalog unavailable'')), c)) c)
       = ([], Some (foreign_error ''catalog unavailable'')))
   \<and> handler_range (\<lambda>c. (([], Some (foreign_error ''catalog unavailable'')), c))
        [LineItem ''SKU2006-001''] ((), [])
     = handler_range (\<lambda>c. (([], None), c)) [LineItem ''SKU2006-001''] ((), [])
   \<and> fst (handler_range (\<lambda>c. (([], Some (foreign_error ''catalog unavailable'')), c))
        [LineItem ''SKU2006-001''] ((), [])) = SendStatus 200
   \<and> snd (snd (handler_range (\<lambda>c. (([], Some (foreign_error ''catalog unavailable'')), c))
        [LineItem ''SKU2006-001''] ((), []))) = []"
  using dispatch_ignores_List_error
    [where database = "\<lambda>c :: unit. (([], Some (foreign_error ''catalog unavailable'')), c)"
       and items = "[LineItem ''SKU2006-001'']" and c = "()" and out = "[]"
       and e = "foreign_error ''catalog unavailable''"]
  by (simp add: Webhook_def StatusOK_def)

text \<open>
  Claim C5 as the specification states it (a failing \<open>List\<close> makes the dispatch fail)
  fails against a connection whose \<open>List\<close> returns an error at every call and counts
  its calls: for two line items \<open>List\<close> is called twice, no error comes back, and the
  dispatch ends with status 200.
\<close>

theorem dispatch_List_error_counterexample:
  "handler_range (\<lambda>n. (([], Some (foreign_error ''catalog unavailable'')), Suc n))
     [LineItem ''SKU2006-001'', LineItem ''SKU2006-002''] (0 :: nat, [])
   = (SendStatus 200, (2, []))"
  by (simp add: Webhook_def StatusOK_def)

section \<open>Properties of the catalog\<close>

text \<open>
  Claim C9. Every call of \<open>MemConnection.List\<close> returns the sequence
  \<^verbatim>\<open>["SKU2006-001", "SKU2006-002", "SKU2006-003"]\<close> and a \<^verbatim>\<open>nil\<close> error; a second
  call returns what the first returned; the call leaves the connection as it was; and
  the error is \<^verbatim>\<open>nil\<close> in every state, so the catalog is never unavailable.
\<close>

theorem MemConnection_List_fixed:
  "MemConnection_List c = (([''SKU2006-001'', ''SKU2006-002'', ''SKU2006-003''], None), c)
   \<and> fst (MemConnection_List (snd (MemConnection_List c))) = fst (MemConnection_List c)
   \<and> snd (MemConnection_List c) = c
   \<and> snd (fst (MemConnection_List c')) = None"
  by (simp add: MemConnection_List_def)

end
